theory Spec2Isabelle
  imports Complex_Main "HOL-Library.Sublist" "HOL-Library.Code_Target_Nat"
begin

section \<open>Numbers and text\<close>

text \<open>
  The program is TypeScript. Its numbers are modelled as exact rationals (\<open>rat\<close>): the
  model computes every sum, product and rounding on the mathematical value, so the binary
  rounding of doubles and the value Infinity are outside the model. The one special value
  the program stores in a field is NaN (an unguarded \<open>parseFloat\<close> of the ledger balance in
  \<open>parseQBO\<close>), so a parsed or stored number that may be NaN has type \<open>number\<close>.

  Strings are lists of code units below 256 (the Latin-1 range of the UTF-16 code units
  of a JavaScript string).
\<close>

datatype number = NaN | Num rat

text \<open>\<open>Math.round(x * 100) / 100\<close>: \<open>Math.round\<close> rounds halves towards plus infinity.\<close>

definition round2 :: "rat \<Rightarrow> rat" where
  "round2 x = of_int \<lfloor>x * 100 + 1 / 2\<rfloor> / 100"

definition digit :: "nat \<Rightarrow> char" where
  "digit d = char_of (48 + d)"

text \<open>\<open>n.toString()\<close> of a non-negative integer.\<close>

fun showNat :: "nat \<Rightarrow> string" where
  "showNat n = (if n < 10 then [digit n] else showNat (n div 10) @ [digit (n mod 10)])"

declare showNat.simps [simp del]

text \<open>
  \<open>x.toFixed(2)\<close>: the sign, then the integer \<open>n\<close> nearest to \<open>|x| * 100\<close> (the larger
  one of two equally near), written with two digits after the point.
\<close>

definition toFixed2 :: "rat \<Rightarrow> string" where
  "toFixed2 x =
     (let n = nat \<lfloor>\<bar>x\<bar> * 100 + 1 / 2\<rfloor>
      in (if x < 0 then ''-'' else '''') @ showNat (n div 100) @ ''.''
           @ [digit (n mod 100 div 10), digit (n mod 10)])"

definition lowerChar :: "char \<Rightarrow> char" where
  "lowerChar c =
     (let n = (of_char c :: nat)
      in if 65 \<le> n \<and> n \<le> 90 then char_of (n + 32)
         else if 192 \<le> n \<and> n \<le> 222 \<and> n \<noteq> 215 then char_of (n + 32)
         else c)"

definition toLowerCase :: "string \<Rightarrow> string" where
  "toLowerCase s = map lowerChar s"

text \<open>\<open>s.includes(sub)\<close>, \<open>s.startsWith(p)\<close>, \<open>s.endsWith(p)\<close>.\<close>

fun includesStr :: "string \<Rightarrow> string \<Rightarrow> bool" where
  "includesStr [] sub = (sub = [])"
| "includesStr (c # cs) sub = (prefix sub (c # cs) \<or> includesStr cs sub)"

definition startsWith :: "string \<Rightarrow> string \<Rightarrow> bool" where
  "startsWith s p = prefix p s"

definition endsWith :: "string \<Rightarrow> string \<Rightarrow> bool" where
  "endsWith s p = suffix p s"

text \<open>\<open>parts.join(sep)\<close>.\<close>

fun join :: "string \<Rightarrow> string list \<Rightarrow> string" where
  "join sep [] = []"
| "join sep [x] = x"
| "join sep (x # y # ys) = x @ sep @ join sep (y # ys)"

section \<open>The transaction model (csv-processor.ts, custom-rules.ts)\<close>

datatype TxnType = Income | Expense

text \<open>
  \<open>SplitTransaction extends Transaction\<close>. A plain \<open>Transaction\<close> is the record with
  \<open>isSplit = False\<close> and the optional fields absent: the program reads \<open>isSplit\<close> only
  through \<open>'isSplit' in txn && txn.isSplit === true\<close>.
\<close>

record Transaction =
  date :: string
  description :: string
  amount :: rat
  type :: TxnType
  category :: string
  balance :: number
  account :: string

record SplitTransaction = Transaction +
  isSplit :: bool
  splitParentId :: "string option"
  splitIndex :: "nat option"
  originalAmount :: "rat option"
  splitMemo :: "string option"

datatype RuleMatchType = Contains | StartsWith | EndsWith | Regex | Exact

datatype RuleActionType = Categorize | Rename | Split

datatype RuleField = DescriptionField | AmountField | CategoryField

record RuleCondition =
  field :: RuleField
  matchType :: RuleMatchType
  "value" :: string
  minAmount :: "rat option"
  maxAmount :: "rat option"

record SplitAllocation =
  category :: string
  percentage :: "rat option"
  fixedAmount :: "rat option"
  memo :: "string option"

record RuleAction =
  type :: RuleActionType
  category :: "string option"
  newName :: "string option"
  splits :: "SplitAllocation list option"

datatype ConditionLogic = AND_logic | OR_logic

record CustomRule =
  ruleId :: string
  name :: string
  enabled :: bool
  priority :: rat
  conditions :: "RuleCondition list"
  conditionLogic :: ConditionLogic
  action :: RuleAction
  createdAt :: string
  updatedAt :: string

section \<open>The custom rule engine (custom-rules.ts)\<close>

text \<open>
  \<open>matchesCondition\<close>. The regular expression of a \<open>regex\<close> condition is compiled from
  the user's text by the runtime; \<open>regexTest pattern s\<close> stands for
  \<open>new RegExp(pattern, 'i').test(s)\<close>, with \<open>None\<close> when the pattern does not compile.
\<close>

definition matchesCondition ::
  "(string \<Rightarrow> string \<Rightarrow> bool option) \<Rightarrow> SplitTransaction \<Rightarrow> RuleCondition \<Rightarrow> bool" where
  "matchesCondition regexTest transaction condition =
     (if field condition = AmountField then
        (case minAmount condition of
           Some lo \<Rightarrow> if amount transaction < lo then False
                      else (case maxAmount condition of
                              Some hi \<Rightarrow> \<not> amount transaction > hi | None \<Rightarrow> True)
         | None \<Rightarrow> (case maxAmount condition of
                      Some hi \<Rightarrow> \<not> amount transaction > hi | None \<Rightarrow> True))
      else
        (let fieldValue = toLowerCase
               (if field condition = DescriptionField then description transaction
                else Transaction.category transaction);
             matchValue = toLowerCase (value condition)
         in case matchType condition of
              Contains \<Rightarrow> includesStr fieldValue matchValue
            | StartsWith \<Rightarrow> startsWith fieldValue matchValue
            | EndsWith \<Rightarrow> endsWith fieldValue matchValue
            | Exact \<Rightarrow> fieldValue = matchValue
            | Regex \<Rightarrow> (case regexTest (value condition) fieldValue of
                          Some b \<Rightarrow> b | None \<Rightarrow> False)))"

definition matchesRule ::
  "(string \<Rightarrow> string \<Rightarrow> bool option) \<Rightarrow> SplitTransaction \<Rightarrow> CustomRule \<Rightarrow> bool" where
  "matchesRule regexTest transaction rule =
     (if \<not> enabled rule then False
      else if length (conditions rule) = 0 then False
      else if conditionLogic rule = AND_logic
        then list_all (matchesCondition regexTest transaction) (conditions rule)
        else list_ex (matchesCondition regexTest transaction) (conditions rule))"

text \<open>A JavaScript string used as a condition: absent and empty are both false.\<close>

definition truthy :: "string option \<Rightarrow> bool" where
  "truthy v = (case v of None \<Rightarrow> False | Some s \<Rightarrow> s \<noteq> [])"

text \<open>
  The body of \<open>rule.action.splits.forEach\<close> in \<open>applyRule\<close>: \<open>splitLoop\<close> walks the
  allocations with the index and the running \<open>remainingAmount\<close>, and returns the
  fragments pushed and the remainder left.
\<close>

definition splitAmountOf :: "rat \<Rightarrow> SplitAllocation \<Rightarrow> rat \<Rightarrow> rat" where
  "splitAmountOf original split remainingAmount =
     (case fixedAmount split of
        Some f \<Rightarrow> min f remainingAmount
      | None \<Rightarrow> (case percentage split of
                   Some p \<Rightarrow> original * (p / 100)
                 | None \<Rightarrow> remainingAmount))"

fun splitLoop ::
  "SplitTransaction \<Rightarrow> string \<Rightarrow> nat \<Rightarrow> SplitAllocation list \<Rightarrow> nat \<Rightarrow> rat
     \<Rightarrow> SplitTransaction list \<times> rat" where
  "splitLoop transaction parentId n [] index remainingAmount = ([], remainingAmount)"
| "splitLoop transaction parentId n (split # rest) index remainingAmount =
     (let splitAmount = splitAmountOf (amount transaction) split remainingAmount;
          fragment = transaction
            \<lparr> amount := round2 splitAmount,
              Transaction.category := SplitAllocation.category split,
              isSplit := True,
              splitParentId := Some parentId,
              splitIndex := Some index,
              originalAmount := Some (amount transaction),
              splitMemo := Some (if truthy (memo split) then the (memo split)
                                 else ''Split '' @ showNat (index + 1) @ '' of '' @ showNat n) \<rparr>;
          (fragments, remaining) =
             splitLoop transaction parentId n rest (index + 1) (remainingAmount - splitAmount)
      in (fragment # fragments, remaining))"

text \<open>\<open>`split_${Date.now()}`\<close>, with the clock reading \<open>now\<close> (milliseconds) as input.\<close>

definition splitParentIdOf :: "nat \<Rightarrow> string" where
  "splitParentIdOf now = ''split_'' @ showNat now"

definition applySplit :: "nat \<Rightarrow> SplitTransaction \<Rightarrow> SplitAllocation list \<Rightarrow> SplitTransaction list" where
  "applySplit now transaction allocs =
     (let parentId = splitParentIdOf now;
          (fragments, remainingAmount) =
             splitLoop transaction parentId (length allocs) allocs 0 (amount transaction)
      in fragments @
         (if remainingAmount > 1 / 100 then
            [transaction
               \<lparr> amount := round2 remainingAmount,
                 Transaction.category := ''Uncategorized'',
                 isSplit := True,
                 splitParentId := Some parentId,
                 splitIndex := Some (length allocs),
                 originalAmount := Some (amount transaction),
                 splitMemo := Some ''Remaining amount'' \<rparr>]
          else []))"

definition applyRule :: "nat \<Rightarrow> SplitTransaction \<Rightarrow> CustomRule \<Rightarrow> SplitTransaction list" where
  "applyRule now transaction rule =
     (let result =
        (case RuleAction.type (action rule) of
           Categorize \<Rightarrow>
             (if truthy (RuleAction.category (action rule))
              then [transaction \<lparr> Transaction.category := the (RuleAction.category (action rule)),
                                  isSplit := False \<rparr>]
              else [])
         | Rename \<Rightarrow>
             (if truthy (newName (action rule))
              then [transaction \<lparr> description := the (newName (action rule)),
                                  isSplit := False \<rparr>]
              else [])
         | Split \<Rightarrow>
             (case splits (action rule) of
                Some allocs \<Rightarrow>
                  if length allocs > 0 then applySplit now transaction allocs else []
              | None \<Rightarrow> []))
      in if length result = 0 then [transaction \<lparr> isSplit := False \<rparr>] else result)"

text \<open>
  \<open>applyRules\<close>. \<open>loadRules()\<close> reads the stored rule list, here the argument \<open>stored\<close>;
  \<open>sort\<close> is stable, as \<open>Array.prototype.sort\<close> is.
\<close>

fun applyRuleToAll ::
  "(string \<Rightarrow> string \<Rightarrow> bool option) \<Rightarrow> nat \<Rightarrow> CustomRule \<Rightarrow> SplitTransaction list
     \<Rightarrow> SplitTransaction list" where
  "applyRuleToAll regexTest now rule [] = []"
| "applyRuleToAll regexTest now rule (txn # results) =
     (if matchesRule regexTest txn rule then applyRule now txn rule else [txn])
       @ applyRuleToAll regexTest now rule results"

fun applyRulesLoop ::
  "(string \<Rightarrow> string \<Rightarrow> bool option) \<Rightarrow> nat \<Rightarrow> CustomRule list \<Rightarrow> SplitTransaction list
     \<Rightarrow> SplitTransaction list" where
  "applyRulesLoop regexTest now [] results = results"
| "applyRulesLoop regexTest now (rule # rules) results =
     applyRulesLoop regexTest now rules (applyRuleToAll regexTest now rule results)"

definition applyRules ::
  "(string \<Rightarrow> string \<Rightarrow> bool option) \<Rightarrow> nat \<Rightarrow> CustomRule list \<Rightarrow> SplitTransaction
     \<Rightarrow> SplitTransaction list" where
  "applyRules regexTest now stored transaction =
     (let rules = sort_key priority (filter enabled stored)
      in applyRulesLoop regexTest now rules [transaction \<lparr> isSplit := False \<rparr>])"

section \<open>Numeric and text normalization\<close>

definition isDigit :: "char \<Rightarrow> bool" where
  "isDigit c = (let n = (of_char c :: nat) in 48 \<le> n \<and> n \<le> 57)"

definition digitValue :: "char \<Rightarrow> nat" where
  "digitValue c = of_char c - 48"

definition digitsValue :: "string \<Rightarrow> nat" where
  "digitsValue ds = foldl (\<lambda>acc c. 10 * acc + digitValue c) 0 ds"

text \<open>
  White space as \<open>String.prototype.trim\<close> and \<open>parseFloat\<close> skip it: tab, line feed,
  vertical tab, form feed, carriage return, space and the no-break space.
\<close>

definition isWhiteSpace :: "char \<Rightarrow> bool" where
  "isWhiteSpace c = ((of_char c :: nat) \<in> {9, 10, 11, 12, 13, 32, 160})"

definition trim :: "string \<Rightarrow> string" where
  "trim s = rev (dropWhile isWhiteSpace (rev (dropWhile isWhiteSpace s)))"

text \<open>
  The exponent part of a decimal literal at the head of a string: \<open>e\<close> or \<open>E\<close>, an
  optional sign and at least one digit; 0 when there is none.
\<close>

definition exponentPart :: "string \<Rightarrow> int" where
  "exponentPart r =
     (case r of
        [] \<Rightarrow> 0
      | e # r1 \<Rightarrow>
          if e = CHR ''e'' \<or> e = CHR ''E'' then
            (case r1 of
               [] \<Rightarrow> 0
             | sg # r2 \<Rightarrow>
                 if sg = CHR ''-'' then - int (digitsValue (takeWhile isDigit r2))
                 else if sg = CHR ''+'' then int (digitsValue (takeWhile isDigit r2))
                 else int (digitsValue (takeWhile isDigit r1)))
          else 0)"

text \<open>
  \<open>parseFloat\<close> of the runtime, on strings: leading white space is skipped, then the
  longest prefix that is a decimal literal (sign, digits, fraction, exponent) is read and
  the rest ignored; \<open>NaN\<close> when no prefix is one. The value is the exact decimal value
  (the literal \<open>Infinity\<close>, which has no rational value, is not read).
\<close>

definition parseFloat :: "string \<Rightarrow> number" where
  "parseFloat s =
     (let t = dropWhile isWhiteSpace s;
          neg = (case t of [] \<Rightarrow> False | c # r \<Rightarrow> c = CHR ''-'');
          u = (case t of [] \<Rightarrow> [] | c # r \<Rightarrow> if c = CHR ''-'' \<or> c = CHR ''+'' then r else t);
          ip = takeWhile isDigit u;
          r1 = dropWhile isDigit u;
          hasDot = (case r1 of [] \<Rightarrow> False | c # r \<Rightarrow> c = CHR ''.'');
          fp = (if hasDot then takeWhile isDigit (tl r1) else []);
          r2 = (if hasDot then dropWhile isDigit (tl r1) else r1)
      in if ip = [] \<and> fp = [] then NaN
         else
           (let mantissa = of_nat (digitsValue ip) + of_nat (digitsValue fp) / 10 ^ length fp;
                v = mantissa * power_int 10 (exponentPart r2)
            in Num (if neg then - v else v)))"

text \<open>
  A value handed to \<open>parseNumeric\<close> or \<open>parseAmount\<close>: a cell of a parsed row, which
  is a string or is absent.
\<close>

datatype cell = Null | Undefined | Str string

text \<open>\<open>String(val).replace(/[$,()]/g, '')\<close>.\<close>

definition stripCurrency :: "string \<Rightarrow> string" where
  "stripCurrency s = filter (\<lambda>c. c \<notin> set ''$,()'') s"


text \<open>\<open>parseAmount\<close> of the delimited-text parser: as \<open>parseNumeric\<close>, with \<open>Math.abs\<close>.\<close>

definition parseAmount :: "cell \<Rightarrow> rat" where
  "parseAmount val =
     (case val of
        Null \<Rightarrow> 0
      | Undefined \<Rightarrow> 0
      | Str s \<Rightarrow>
          if s = [] then 0
          else (case parseFloat (stripCurrency s) of NaN \<Rightarrow> 0 | Num num \<Rightarrow> \<bar>num\<bar>))"

text \<open>A parsed row: \<open>Record<string, string>\<close>; \<open>row[col]\<close> is undefined for a missing key.\<close>

type_synonym row = "string \<rightharpoonup> string"


section \<open>Column resolution of the delimited-text parser (csv-processor.ts)\<close>






section \<open>The validators of parsed rows (validators.ts)\<close>

record ValidationError =
  "file" :: string
  row :: "nat option"
  date :: "string option"
  message :: string
  expected :: "rat option"
  actual :: "rat option"





record BalanceColumns =
  deposit :: string
  withdrawal :: string
  balance :: string
  date :: string



section \<open>The markup parser (qbo-parser.ts)\<close>





















record QBOParseResult =
  transactions :: "Transaction list"
  account :: string
  bankId :: string
  accountId :: "string option"
  accountType :: string
  startDate :: string
  endDate :: string
  startBalance :: number
  endBalance :: number




section \<open>The categorizer (categorizer.ts)\<close>

text \<open>
  The regular expressions of \<open>CATEGORY_RULES\<close>, all with the flag \<open>i\<close>, use literal
  characters, \<open>.*\<close>, \<open>?\<close>, groups with alternatives, \<open>\b\<close> and the negative
  lookahead \<open>(?!...)\<close>.
\<close>

datatype regex =
    Lit string
  | AnyStar
  | Opt regex
  | Seq regex regex
  | Alt regex regex
  | WordBoundary
  | NotFollowedBy regex

text \<open>
  A position in the text: the character before it, if there is one, and the text from it
  on. \<open>matchAt r p\<close> lists the positions at which a match of \<open>r\<close> begun at \<open>p\<close> can end.
\<close>

type_synonym position = "char option \<times> string"

fun litAt :: "string \<Rightarrow> position \<Rightarrow> position list" where
  "litAt [] p = [p]"
| "litAt (x # xs) (before, []) = []"
| "litAt (x # xs) (before, c # cs) =
     (if lowerChar x = lowerChar c then litAt xs (Some c, cs) else [])"

text \<open>\<open>.\<close> matches any character but a line terminator.\<close>

fun anyStarAt :: "position \<Rightarrow> position list" where
  "anyStarAt (before, []) = [(before, [])]"
| "anyStarAt (before, c # cs) =
     (before, c # cs)
       # (if c = CHR 0x0A \<or> c = CHR 0x0D then [] else anyStarAt (Some c, cs))"

definition isWordChar :: "char \<Rightarrow> bool" where
  "isWordChar c =
     (c \<in> set ''abcdefghijklmnopqrstuvwxyzABCDEFGHIJKLMNOPQRSTUVWXYZ0123456789_'')"

definition atWordBoundary :: "position \<Rightarrow> bool" where
  "atWordBoundary p =
     ((case fst p of None \<Rightarrow> False | Some b \<Rightarrow> isWordChar b)
        \<noteq> (case snd p of [] \<Rightarrow> False | c # cs \<Rightarrow> isWordChar c))"

fun matchAt :: "regex \<Rightarrow> position \<Rightarrow> position list" where
  "matchAt (Lit s) p = litAt s p"
| "matchAt AnyStar p = anyStarAt p"
| "matchAt (Opt r) p = matchAt r p @ [p]"
| "matchAt (Seq r s) p = concat (map (matchAt s) (matchAt r p))"
| "matchAt (Alt r s) p = matchAt r p @ matchAt s p"
| "matchAt WordBoundary p = (if atWordBoundary p then [p] else [])"
| "matchAt (NotFollowedBy r) p = (if matchAt r p = [] then [p] else [])"

text \<open>\<open>pattern.test(s)\<close>: some match begins at some position of \<open>s\<close>.\<close>

fun testFrom :: "regex \<Rightarrow> position \<Rightarrow> bool" where
  "testFrom r (before, []) = (matchAt r (before, []) \<noteq> [])"
| "testFrom r (before, c # cs) =
     (if matchAt r (before, c # cs) \<noteq> [] then True else testFrom r (Some c, cs))"

definition test :: "regex \<Rightarrow> string \<Rightarrow> bool" where
  "test pattern s = testFrom pattern (None, s)"

record CategoryRule =
  patterns :: "regex list"
  category :: string

definition CATEGORY_RULES :: "CategoryRule list" where
  "CATEGORY_RULES =
     [\<lparr> patterns = [Lit ''payroll'', Lit ''salary'', Lit ''direct deposit'',
          Lit ''employer''],
        CategoryRule.category = ''Salary'' \<rparr>,
      \<lparr> patterns = [Lit ''bonus'', Lit ''incentive''],
        CategoryRule.category = ''Bonus'' \<rparr>,
      \<lparr> patterns = [
          Seq (Lit ''interest '') (Alt (Lit ''payment'') (Alt (Lit ''earned'') (Lit ''credit''))),
          Lit ''apy''],
        CategoryRule.category = ''Interest'' \<rparr>,
      \<lparr> patterns = [Lit ''dividend''],
        CategoryRule.category = ''Dividends'' \<rparr>,
      \<lparr> patterns = [Lit ''refund'', Lit ''rebate'', Lit ''cashback''],
        CategoryRule.category = ''Refunds'' \<rparr>,
      \<lparr> patterns = [Lit ''trader joe'', Lit ''whole foods'', Lit ''safeway'',
          Lit ''kroger'', Lit ''publix'', Lit ''albertsons'', Lit ''food coop'', Lit ''grocery'',
          Lit ''costco'', Seq (Lit ''sam'') (Seq (Opt (Lit [CHR 0x27])) (Lit ''s club'')),
          Lit ''aldi'', Lit ''wegmans'',
          Seq (Lit ''h'') (Seq (Opt (Lit ''-'')) (Seq (Lit ''e'') (Seq (Opt (Lit ''-'')) (Lit ''b'')))),
          Seq (Lit ''target'') (Seq AnyStar (Lit ''grocery'')),
          Seq (Lit ''walmart'') (Seq AnyStar (Lit ''grocery'')), Lit ''sprouts'',
          Lit ''fresh market'', Lit ''food mart'', Lit ''supermarket''],
        CategoryRule.category = ''Groceries'' \<rparr>,
      \<lparr> patterns = [Lit ''restaurant'', Lit ''doordash'',
          Seq (Lit ''uber'') (Seq (Opt (Lit '' '')) (Lit ''eats'')), Lit ''grubhub'',
          Lit ''postmates'', Lit ''chipotle'', Lit ''mcdonald'', Lit ''starbucks'', Lit ''dunkin'',
          Lit ''subway'', Lit ''pizza'', Lit ''burger'', Lit ''cafe'', Lit ''coffee'',
          Lit ''diner'', Lit ''grill'', Lit ''sweetgreen'',
          Seq (Lit ''chick'') (Seq (Opt (Lit ''-'')) (Seq (Lit ''fil'') (Seq (Opt (Lit ''-'')) (Lit ''a'')))),
          Lit ''panera'', Lit ''wendy'', Lit ''taco bell'', Lit ''kfc'', Lit ''popeyes'',
          Lit ''five guys'', Lit ''shake shack'', Lit ''panda express''],
        CategoryRule.category = ''Restaurants & Dining'' \<rparr>,
      \<lparr> patterns = [Lit ''netflix'', Lit ''spotify'', Lit ''hulu'', Lit ''disney+'',
          Seq (Lit ''hbo'') (Seq (Opt (Lit '' '')) (Lit ''max'')),
          Seq (Lit ''apple'') (Seq (Opt (Lit '' '')) (Alt (Lit ''music'') (Alt (Lit ''tv'') (Alt (Lit ''one'') (Lit ''arcade''))))),
          Lit ''amazon prime'', Lit ''youtube'', Lit ''paramount'', Lit ''peacock'',
          Lit ''audible'', Lit ''kindle'', Lit ''nytimes'', Lit ''subscription'',
          Lit ''membership'', Lit ''monthly fee''],
        CategoryRule.category = ''Subscriptions'' \<rparr>,
      \<lparr> patterns = [Lit ''openai'', Lit ''anthropic'', Lit ''claude'', Lit ''chatgpt'',
          Lit ''cursor'', Lit ''github'', Lit ''gitlab'', Lit ''aws'', Lit ''azure'',
          Lit ''google cloud'', Lit ''digitalocean'', Lit ''heroku'', Lit ''vercel'',
          Lit ''netlify'', Lit ''cloudflare'', Lit ''notion'', Lit ''figma'', Lit ''canva'',
          Lit ''adobe'', Lit ''microsoft 365'', Lit ''dropbox'', Lit ''slack'', Lit ''zoom'',
          Lit ''calendly'', Lit ''zapier'', Lit ''replicate'', Lit ''elevenlabs'',
          Lit ''midjourney'', Lit ''runway'', Lit ''tradingview'', Lit ''webflow'',
          Lit ''airtable'', Lit ''hubspot''],
        CategoryRule.category = ''Software & Services'' \<rparr>,
      \<lparr> patterns = [Lit ''electric'', Lit ''gas co'',
          Seq (Lit ''water '') (Alt (Lit ''bill'') (Lit ''utility'')), Lit ''sewage'',
          Seq (Lit ''con'') (Seq (Opt (Lit '' '')) (Lit ''ed'')), Lit ''pge'', Lit ''duke energy'',
          Lit ''xcel'', Lit ''utility'', Lit ''power company'', Lit ''national grid''],
        CategoryRule.category = ''Utilities'' \<rparr>,
      \<lparr> patterns = [Lit ''comcast'', Lit ''xfinity'', Lit ''spectrum'',
          Lit ''verizon fios'', Seq (Lit ''att'') (Seq AnyStar (Lit ''internet'')),
          Seq (Lit ''t'') (Seq (Opt (Lit ''-'')) (Seq (Lit ''mobile'') (Seq AnyStar (Lit ''home'')))),
          Lit ''cox'', Lit ''frontier'', Lit ''optimum'', Lit ''cable'', Lit ''internet service'',
          Lit ''broadband''],
        CategoryRule.category = ''Internet & Cable'' \<rparr>,
      \<lparr> patterns = [Lit ''verizon wireless'',
          Seq (Lit ''t'') (Seq (Opt (Lit ''-'')) (Lit ''mobile'')),
          Seq (Lit ''att'') (Seq AnyStar (Lit ''wireless'')), Lit ''sprint'', Lit ''at&t'',
          Lit ''cricket'', Seq (Lit ''metro'') (Seq (Opt (Lit '' '')) (Lit ''pcs'')),
          Lit ''mint mobile'', Lit ''visible'', Lit ''google fi'', Lit ''phone bill'',
          Seq (Lit ''cell'') (Opt (Lit ''ular''))],
        CategoryRule.category = ''Phone'' \<rparr>,
      \<lparr> patterns = [Lit ''insurance'', Lit ''geico'', Lit ''progressive'',
          Lit ''state farm'', Lit ''allstate'', Lit ''liberty mutual'', Lit ''nationwide'',
          Lit ''usaa'', Lit ''aetna'', Lit ''cigna'', Lit ''blue cross'', Lit ''united health'',
          Lit ''kaiser'', Lit ''anthem''],
        CategoryRule.category = ''Insurance'' \<rparr>,
      \<lparr> patterns = [
          Seq (Lit ''uber'') (NotFollowedBy (Seq (Opt (Lit '' '')) (Lit ''eats''))), Lit ''lyft'',
          Lit ''taxi'', Seq (Lit ''cab'') WordBoundary, Lit ''mta'', Lit ''metro'',
          Lit ''transit'', Lit ''subway'', Lit ''bus pass'', Lit ''parking'', Lit ''garage'',
          Lit ''toll'', Seq (Lit ''e'') (Seq (Opt (Lit ''-'')) (Lit ''zpass''))],
        CategoryRule.category = ''Transportation'' \<rparr>,
      \<lparr> patterns = [Lit ''shell'', Lit ''chevron'', Lit ''exxon'', Lit ''mobil'',
          Seq (Lit ''bp'') WordBoundary, Lit ''arco'', Seq (Lit ''76'') WordBoundary,
          Lit ''texaco'', Lit ''gas station'', Lit ''fuel'', Lit ''petroleum'', Lit ''speedway'',
          Seq (Lit ''wawa'') (Seq AnyStar (Lit ''gas'')),
          Seq (Lit ''costco'') (Seq AnyStar (Lit ''gas''))],
        CategoryRule.category = ''Gas'' \<rparr>,
      \<lparr> patterns = [Seq (Lit ''amazon'') (NotFollowedBy (Seq AnyStar (Lit ''prime''))),
          Lit ''walmart'', Lit ''target'', Lit ''best buy'', Lit ''home depot'', Lit ''lowes'',
          Lit ''ikea'', Lit ''wayfair'', Lit ''bed bath'', Lit ''macy'', Lit ''nordstrom'',
          Seq (Lit ''tj'') (Seq (Opt (Lit '' '')) (Lit ''maxx'')), Lit ''marshalls'', Lit ''ross'',
          Lit ''kohls'', Seq (Lit ''jc'') (Seq (Opt (Lit '' '')) (Lit ''penney'')), Lit ''gap'',
          Lit ''old navy'', Lit ''h&m'', Lit ''zara'', Lit ''uniqlo'', Lit ''nike'',
          Lit ''adidas'', Lit ''apple store'', Lit ''etsy'', Lit ''ebay''],
        CategoryRule.category = ''Shopping'' \<rparr>,
      \<lparr> patterns = [Lit ''pharmacy'', Lit ''cvs'', Lit ''walgreens'', Lit ''rite aid'',
          Lit ''hospital'', Lit ''clinic'', Lit ''medical'', Lit ''doctor'', Lit ''dentist'',
          Lit ''optom'', Lit ''urgent care'', Lit ''quest diag'', Lit ''labcorp'',
          Lit ''prescription''],
        CategoryRule.category = ''Health & Medical'' \<rparr>,
      \<lparr> patterns = [Lit ''gym'', Lit ''fitness'', Lit ''planet fitness'', Lit ''equinox'',
          Lit ''crunch'', Lit ''24 hour fitness'', Lit ''la fitness'', Lit ''orangetheory'',
          Lit ''crossfit'', Lit ''peloton'', Lit ''yoga'', Lit ''pilates''],
        CategoryRule.category = ''Fitness'' \<rparr>,
      \<lparr> patterns = [Lit ''movie'', Lit ''cinema'', Lit ''amc'', Lit ''regal'',
          Lit ''theater'', Lit ''theatre'', Lit ''concert'', Lit ''ticketmaster'', Lit ''stubhub'',
          Lit ''eventbrite'', Lit ''museum'', Lit ''zoo'', Lit ''amusement'', Lit ''bowling'',
          Lit ''arcade'', Lit ''steam'', Lit ''playstation'', Lit ''xbox'', Lit ''nintendo'',
          Lit ''gaming''],
        CategoryRule.category = ''Entertainment'' \<rparr>,
      \<lparr> patterns = [Lit ''airline'', Lit ''united'', Lit ''delta'', Lit ''american air'',
          Lit ''southwest'', Lit ''jetblue'', Lit ''spirit'', Lit ''frontier'', Lit ''alaska air'',
          Lit ''flight'', Lit ''hotel'', Lit ''marriott'', Lit ''hilton'', Lit ''hyatt'',
          Lit ''airbnb'', Lit ''vrbo'', Lit ''expedia'', Lit ''booking.com'', Lit ''kayak'',
          Lit ''hopper'', Lit ''priceline''],
        CategoryRule.category = ''Travel'' \<rparr>,
      \<lparr> patterns = [Lit ''student loan'',
          Seq (Lit ''dept'') (Seq AnyStar (Lit ''education'')), Lit ''fedloan'', Lit ''nelnet'',
          Lit ''navient'', Lit ''mortgage'', Lit ''car payment'', Lit ''auto loan'',
          Lit ''personal loan'', Lit ''sofi'', Lit ''lending club'', Lit ''credit card payment''],
        CategoryRule.category = ''Loans'' \<rparr>,
      \<lparr> patterns = [Lit ''rent'', Lit ''landlord'', Lit ''property management'',
          Lit ''apartment''],
        CategoryRule.category = ''Rent'' \<rparr>,
      \<lparr> patterns = [Lit ''transfer'', Lit ''venmo'', Lit ''zelle'', Lit ''paypal'',
          Seq (Lit ''cash'') (Seq (Opt (Lit '' '')) (Lit ''app'')), Lit ''wire'',
          Seq (Lit ''ach'') (Seq AnyStar (Lit ''transfer''))],
        CategoryRule.category = ''Transfers'' \<rparr>,
      \<lparr> patterns = [Lit ''atm'', Lit ''cash withdrawal'', Lit ''cash advance''],
        CategoryRule.category = ''ATM/Cash'' \<rparr>,
      \<lparr> patterns = [Lit ''fee'', Lit ''charge'', Lit ''overdraft'', Lit ''nsf'',
          Lit ''service charge'', Lit ''monthly maintenance'', Lit ''atm fee'',
          Lit ''foreign transaction''],
        CategoryRule.category = ''Fees'' \<rparr>]"

text \<open>The two nested loops of \<open>categorizeTransaction\<close>.\<close>

fun patternLoop :: "regex list \<Rightarrow> string \<Rightarrow> bool" where
  "patternLoop [] desc = False"
| "patternLoop (pattern # rest) desc =
     (if test pattern desc then True else patternLoop rest desc)"

fun ruleLoop :: "CategoryRule list \<Rightarrow> string \<Rightarrow> string option" where
  "ruleLoop [] desc = None"
| "ruleLoop (rule # rest) desc =
     (if patternLoop (patterns rule) desc then Some (CategoryRule.category rule)
      else ruleLoop rest desc)"

definition categorizeTransaction :: "'a Transaction_scheme \<Rightarrow> string" where
  "categorizeTransaction transaction =
     (if Transaction.category transaction \<noteq> []
         \<and> Transaction.category transaction \<noteq> ''Uncategorized''
      then Transaction.category transaction
      else
        (let description = toLowerCase (Transaction.description transaction)
         in if Transaction.type transaction = Income then
              (case ruleLoop (take 5 CATEGORY_RULES) description of
                 Some c \<Rightarrow> c
               | None \<Rightarrow> ''Other Income'')
            else
              (case ruleLoop CATEGORY_RULES description of
                 Some c \<Rightarrow> c
               | None \<Rightarrow> ''Other'')))"

definition categorizeAllTransactions :: "'a Transaction_scheme list \<Rightarrow> 'a Transaction_scheme list" where
  "categorizeAllTransactions txns =
     map (\<lambda>t. t \<lparr> Transaction.category := categorizeTransaction t \<rparr>) txns"


section \<open>The accounting exporter (iif-exporter.ts)\<close>

abbreviation TAB :: char where "TAB \<equiv> CHR 0x09"
abbreviation LF :: char where "LF \<equiv> CHR 0x0A"
abbreviation CR :: char where "CR \<equiv> CHR 0x0D"

text \<open>
  \<open>IIFExportOptions\<close>: every field is optional. \<open>mergeOptions\<close> is the spread
  \<open>{ ...DEFAULT_OPTIONS, ...options }\<close>: a field of \<open>options\<close> that is present wins.
\<close>

record IIFExportOptions =
  bankAccountName :: "string option"
  defaultExpenseAccount :: "string option"
  defaultIncomeAccount :: "string option"
  includeMemo :: "bool option"
  categoryMapping :: "(string \<rightharpoonup> string) option"

definition DEFAULT_OPTIONS :: IIFExportOptions where
  "DEFAULT_OPTIONS =
     \<lparr> bankAccountName = Some ''Checking'',
       defaultExpenseAccount = Some ''Uncategorized Expense'',
       defaultIncomeAccount = Some ''Other Income'',
       includeMemo = Some True,
       categoryMapping = Some Map.empty \<rparr>"

definition orDefault :: "'a option \<Rightarrow> 'a option \<Rightarrow> 'a option" where
  "orDefault given dflt = (case given of Some v \<Rightarrow> Some v | None \<Rightarrow> dflt)"

definition mergeOptions :: "IIFExportOptions \<Rightarrow> IIFExportOptions \<Rightarrow> IIFExportOptions" where
  "mergeOptions defaults options =
     \<lparr> bankAccountName = orDefault (bankAccountName options) (bankAccountName defaults),
       defaultExpenseAccount =
         orDefault (defaultExpenseAccount options) (defaultExpenseAccount defaults),
       defaultIncomeAccount =
         orDefault (defaultIncomeAccount options) (defaultIncomeAccount defaults),
       includeMemo = orDefault (includeMemo options) (includeMemo defaults),
       categoryMapping = orDefault (categoryMapping options) (categoryMapping defaults) \<rparr>"

definition DEFAULT_CATEGORY_MAPPING :: "(string \<times> string) list" where
  "DEFAULT_CATEGORY_MAPPING =
     [(''Groceries'', ''Groceries''),
      (''Restaurants and Dining'', ''Meals & Entertainment''),
      (''Entertainment'', ''Entertainment''),
      (''Gas'', ''Auto:Fuel''),
      (''Travel'', ''Travel''),
      (''Utilities'', ''Utilities''),
      (''Cable'', ''Utilities:Cable''),
      (''Phone'', ''Utilities:Telephone''),
      (''Insurance'', ''Insurance''),
      (''Healthcare'', ''Medical''),
      (''Subscriptions and Renewals'', ''Subscriptions''),
      (''Services and Supplies'', ''Office Supplies''),
      (''Software & Services'', ''Computer & Internet''),
      (''General Merchandise'', ''Supplies''),
      (''Clothing'', ''Clothing''),
      (''Personal Care'', ''Personal Care''),
      (''Home Improvement'', ''Repairs & Maintenance''),
      (''Loans'', ''Loan Interest''),
      (''Transfers'', ''Transfer''),
      (''ATM'', ''Cash''),
      (''Fees'', ''Bank Service Charges''),
      (''Salary'', ''Payroll Income''),
      (''Other Income'', ''Other Income''),
      (''Interest'', ''Interest Income''),
      (''Refund'', ''Other Income''),
      (''Uncategorized'', ''Uncategorized Expense'')]"

text \<open>
  \<open>formatIIFDate\<close>. \<open>dateOf d\<close> stands for \<open>new Date(d)\<close> of the runtime, read in local
  time: the year, the month index (0 to 11) and the day of the month, or \<open>None\<close> for an
  invalid date, whose fields are all NaN.
\<close>

definition showInt :: "int \<Rightarrow> string" where
  "showInt i = (if i < 0 then ''-'' @ showNat (nat (- i)) else showNat (nat i))"

definition padStart2 :: "string \<Rightarrow> string" where
  "padStart2 s = replicate (2 - length s) (CHR ''0'') @ s"

definition formatIIFDate :: "(string \<Rightarrow> (int \<times> nat \<times> nat) option) \<Rightarrow> string \<Rightarrow> string" where
  "formatIIFDate dateOf dateStr =
     (case dateOf dateStr of
        None \<Rightarrow> ''NaN/NaN/NaN''
      | Some (year, monthIndex, day) \<Rightarrow>
          padStart2 (showNat (monthIndex + 1)) @ ''/'' @ padStart2 (showNat day)
            @ ''/'' @ showInt year)"

text \<open>\<open>escapeIIF\<close>: tabs and line breaks (\<open>\r?\n\<close>) become spaces, then the first 100.\<close>

fun replaceLineBreaks :: "string \<Rightarrow> string" where
  "replaceLineBreaks [] = []"
| "replaceLineBreaks [c] = (if c = LF then '' '' else [c])"
| "replaceLineBreaks (c # d # cs) =
     (if c = CR \<and> d = LF then CHR '' '' # replaceLineBreaks cs
      else if c = LF then CHR '' '' # replaceLineBreaks (d # cs)
      else c # replaceLineBreaks (d # cs))"

definition escapeIIF :: "string \<Rightarrow> string" where
  "escapeIIF str =
     take 100 (replaceLineBreaks (map (\<lambda>c. if c = TAB then CHR '' '' else c) str))"

definition getQBAccount :: "string \<Rightarrow> TxnType \<Rightarrow> IIFExportOptions \<Rightarrow> string" where
  "getQBAccount cat ty options =
     (let custom = (case categoryMapping options of None \<Rightarrow> None | Some m \<Rightarrow> m cat)
      in if truthy custom then the custom
         else if truthy (map_of DEFAULT_CATEGORY_MAPPING cat)
           then the (map_of DEFAULT_CATEGORY_MAPPING cat)
         else if ty = Income
           then (if truthy (defaultIncomeAccount options)
                 then the (defaultIncomeAccount options) else ''Other Income'')
           else (if truthy (defaultExpenseAccount options)
                 then the (defaultExpenseAccount options) else ''Uncategorized Expense''))"

definition isSplitTransaction :: "SplitTransaction \<Rightarrow> bool" where
  "isSplitTransaction txn = isSplit txn"

text \<open>
  \<open>groupSplitTransactions\<close>. The \<open>Map\<close> of the groups keeps its keys in insertion
  order: it is the list of the keys with their groups, a known key updated in place.
\<close>

fun addToGroup ::
  "string \<Rightarrow> SplitTransaction \<Rightarrow> (string \<times> SplitTransaction list) list
     \<Rightarrow> (string \<times> SplitTransaction list) list" where
  "addToGroup key txn [] = [(key, [txn])]"
| "addToGroup key txn (g # groups) =
     (if fst g = key then (fst g, snd g @ [txn]) # groups
      else g # addToGroup key txn groups)"

fun groupLoop ::
  "SplitTransaction list \<Rightarrow> SplitTransaction list \<times> (string \<times> SplitTransaction list) list
     \<Rightarrow> SplitTransaction list \<times> (string \<times> SplitTransaction list) list" where
  "groupLoop [] state = state"
| "groupLoop (txn # rest) state =
     groupLoop rest
       (if isSplitTransaction txn \<and> truthy (splitParentId txn)
        then (fst state, addToGroup (the (splitParentId txn)) txn (snd state))
        else (fst state @ [txn], snd state))"

definition groupSplitTransactions ::
  "SplitTransaction list \<Rightarrow> SplitTransaction list \<times> (string \<times> SplitTransaction list) list" where
  "groupSplitTransactions txns = groupLoop txns ([], [])"

text \<open>A value in \<open>[...].join('\t')\<close>: an absent option is written as the empty string.\<close>

definition joined :: "string option \<Rightarrow> string" where
  "joined v = (case v of None \<Rightarrow> [] | Some s \<Rightarrow> s)"

text \<open>
  The loop over the regular transactions: the lines pushed from \<open>trnsId\<close> on, and the
  counter afterwards.
\<close>

fun regularLoop ::
  "(string \<Rightarrow> (int \<times> nat \<times> nat) option) \<Rightarrow> IIFExportOptions \<Rightarrow> SplitTransaction list
     \<Rightarrow> nat \<Rightarrow> string list \<times> nat" where
  "regularLoop dateOf opts [] counter = ([], counter)"
| "regularLoop dateOf opts (txn # rest) counter =
     (let trnsId = counter + 1;
          date = formatIIFDate dateOf (Transaction.date txn);
          amount = (if Transaction.type txn = Expense then - amount txn else amount txn);
          offsetAmount = - amount;
          name = escapeIIF (take 50 (description txn));
          memo = (if includeMemo opts = Some True then escapeIIF (description txn) else []);
          offsetAccount = getQBAccount (Transaction.category txn) (Transaction.type txn) opts;
          trnsType = (if Transaction.type txn = Income then ''DEPOSIT'' else ''CHECK'');
          more = regularLoop dateOf opts rest trnsId
      in ([join [TAB] [''TRNS'', showNat trnsId, trnsType, date, joined (bankAccountName opts),
                       name, toFixed2 amount, [], memo, ''N'', ''N''],
           join [TAB] [''SPL'', showNat trnsId, trnsType, date, offsetAccount,
                       name, toFixed2 offsetAmount, [], memo, ''N'', [], []],
           ''ENDTRNS'']
            @ fst more,
          snd more))"

text \<open>The \<open>SPL\<close> rows of one split group.\<close>

definition splitLine ::
  "IIFExportOptions \<Rightarrow> nat \<Rightarrow> string \<Rightarrow> string \<Rightarrow> string \<Rightarrow> string \<Rightarrow> SplitTransaction
     \<Rightarrow> string" where
  "splitLine opts trnsId trnsType dateText nameText memoText split =
     (let splitAmount = (if Transaction.type split = Expense then amount split
                         else - amount split);
          offsetAccount =
            getQBAccount (Transaction.category split) (Transaction.type split) opts;
          splitMemo = (if truthy (SplitTransaction.splitMemo split)
                       then the (SplitTransaction.splitMemo split) else memoText)
      in join [TAB] [''SPL'', showNat trnsId, trnsType, dateText, offsetAccount, nameText,
                     toFixed2 splitAmount, [], escapeIIF splitMemo, ''N'', [], []])"

fun groupsLoop ::
  "(string \<Rightarrow> (int \<times> nat \<times> nat) option) \<Rightarrow> IIFExportOptions
     \<Rightarrow> (string \<times> SplitTransaction list) list \<Rightarrow> nat \<Rightarrow> string list \<times> nat" where
  "groupsLoop dateOf opts [] counter = ([], counter)"
| "groupsLoop dateOf opts (g # rest) counter =
     (case snd g of
        [] \<Rightarrow> groupsLoop dateOf opts rest counter
      | firstSplit # others \<Rightarrow>
          (let splits = snd g;
               trnsId = counter + 1;
               date = formatIIFDate dateOf (Transaction.date firstSplit);
               originalAmount =
                 (case SplitTransaction.originalAmount firstSplit of
                    None \<Rightarrow> sum_list (map amount splits)
                  | Some a \<Rightarrow> if a = 0 then sum_list (map amount splits) else a);
               amount = (if Transaction.type firstSplit = Expense then - originalAmount
                         else originalAmount);
               name = escapeIIF (take 50 (description firstSplit));
               memo = (if includeMemo opts = Some True then escapeIIF (description firstSplit)
                       else []);
               trnsType = (if Transaction.type firstSplit = Income then ''DEPOSIT'' else ''CHECK'');
               more = groupsLoop dateOf opts rest trnsId
           in ([join [TAB] [''TRNS'', showNat trnsId, trnsType, date,
                            joined (bankAccountName opts), name, toFixed2 amount, [], memo,
                            ''N'', ''N'']]
                 @ map (splitLine opts trnsId trnsType date name memo) splits
                 @ [''ENDTRNS'']
                 @ fst more,
               snd more)))"

definition iifHeader :: "string list" where
  "iifHeader =
     [join [TAB] [''!TRNS'', ''TRNSID'', ''TRNSTYPE'', ''DATE'', ''ACCNT'', ''NAME'', ''AMOUNT'',
                  ''DOCNUM'', ''MEMO'', ''CLEAR'', ''TOPRINT''],
      join [TAB] [''!SPL'', ''SPLID'', ''TRNSTYPE'', ''DATE'', ''ACCNT'', ''NAME'', ''AMOUNT'',
                  ''DOCNUM'', ''MEMO'', ''CLEAR'', ''QNTY'', ''REIMBEXP''],
      ''!ENDTRNS'']"

text \<open>The lines of \<open>generateIIF\<close>, and the text that joins them with \<open>\r\n\<close>.\<close>

definition generateIIFLines ::
  "(string \<Rightarrow> (int \<times> nat \<times> nat) option) \<Rightarrow> SplitTransaction list \<Rightarrow> IIFExportOptions
     \<Rightarrow> string list" where
  "generateIIFLines dateOf txns options =
     (let opts = mergeOptions DEFAULT_OPTIONS options;
          grouped = groupSplitTransactions txns;
          regularLines = regularLoop dateOf opts (fst grouped) 0;
          groupLines = groupsLoop dateOf opts (snd grouped) (snd regularLines)
      in iifHeader @ fst regularLines @ fst groupLines)"

definition generateIIF ::
  "(string \<Rightarrow> (int \<times> nat \<times> nat) option) \<Rightarrow> SplitTransaction list \<Rightarrow> IIFExportOptions
     \<Rightarrow> string" where
  "generateIIF dateOf txns options = join [CR, LF] (generateIIFLines dateOf txns options)"

section \<open>The validator of the export (validators.ts)\<close>

record IIFStats =
  transactionCount :: nat
  splitCount :: nat
  totalDebit :: rat
  totalCredit :: rat

record IIFValidationResult =
  valid :: bool
  errors :: "string list"
  warnings :: "string list"
  stats :: IIFStats

text \<open>\<open>content.split(/\r?\n/)\<close> and \<open>line.split('\t')\<close>.\<close>

definition consHead :: "char \<Rightarrow> string list \<Rightarrow> string list" where
  "consHead c ls = (case ls of [] \<Rightarrow> [[c]] | l # rest \<Rightarrow> (c # l) # rest)"

fun splitLines :: "string \<Rightarrow> string list" where
  "splitLines [] = [[]]"
| "splitLines [c] = (if c = LF then [[], []] else [[c]])"
| "splitLines (c # d # cs) =
     (if c = CR \<and> d = LF then [] # splitLines cs
      else if c = LF then [] # splitLines (d # cs)
      else consHead c (splitLines (d # cs)))"

fun splitTabs :: "string \<Rightarrow> string list" where
  "splitTabs [] = [[]]"
| "splitTabs (c # cs) = (if c = TAB then [] # splitTabs cs else consHead c (splitTabs cs))"

text \<open>\<open>parts[k] || dflt\<close>: the part when it is there and not empty.\<close>

definition partOr :: "string list \<Rightarrow> nat \<Rightarrow> string \<Rightarrow> string" where
  "partOr parts k dflt = (if k < length parts \<and> parts ! k \<noteq> [] then parts ! k else dflt)"

text \<open>\<open>parseFloat(s) || 0\<close>.\<close>

definition parseFloatOr0 :: "string \<Rightarrow> rat" where
  "parseFloatOr0 s = (case parseFloat s of NaN \<Rightarrow> 0 | Num v \<Rightarrow> v)"

text \<open>The state of the loop of \<open>validateIIF\<close>.\<close>

record IIFState =
  inTransaction :: bool
  currentTrnsAmount :: rat
  currentSplitsTotal :: rat
  currentTrnsId :: string
  stateErrors :: "string list"
  stateWarnings :: "string list"
  stateStats :: IIFStats

definition pushError :: "string \<Rightarrow> IIFState \<Rightarrow> IIFState" where
  "pushError msg st = st \<lparr> stateErrors := stateErrors st @ [msg] \<rparr>"

definition pushErrorIf :: "bool \<Rightarrow> string \<Rightarrow> IIFState \<Rightarrow> IIFState" where
  "pushErrorIf cond msg st = (if cond then pushError msg st else st)"

text \<open>The body of the loop at line index \<open>i\<close>.\<close>

definition validateLine :: "nat \<Rightarrow> string \<Rightarrow> IIFState \<Rightarrow> IIFState" where
  "validateLine i rawLine st =
     (let line = trim rawLine
      in if line = [] then st
         else if startsWith line ''!'' then st
         else
           (let parts = splitTabs line;
                ty = parts ! 0
            in if ty = ''TRNS'' then
                 (let st1 = pushErrorIf (inTransaction st)
                              (''Line '' @ showNat (i + 1)
                                 @ '': TRNS without ENDTRNS for previous transaction'') st;
                      trnsAmount = parseFloatOr0 (partOr parts 6 ''0'');
                      s = stateStats st1;
                      s1 = s \<lparr> transactionCount := transactionCount s + 1 \<rparr>;
                      s2 = (if trnsAmount \<ge> 0
                            then s1 \<lparr> totalCredit := totalCredit s1 + trnsAmount \<rparr>
                            else s1 \<lparr> totalDebit := totalDebit s1 + \<bar>trnsAmount\<bar> \<rparr>)
                  in st1 \<lparr> inTransaction := True,
                           currentTrnsId := partOr parts 1 [],
                           currentTrnsAmount := trnsAmount,
                           currentSplitsTotal := 0,
                           stateStats := s2 \<rparr>)
               else if ty = ''SPL'' then
                 (let st1 = pushErrorIf (\<not> inTransaction st)
                              (''Line '' @ showNat (i + 1) @ '': SPL without TRNS'') st;
                      s = stateStats st1;
                      splAmount = parseFloatOr0 (partOr parts 6 ''0'')
                  in st1 \<lparr> currentSplitsTotal := currentSplitsTotal st1 + splAmount,
                           stateStats := s \<lparr> splitCount := splitCount s + 1 \<rparr> \<rparr>)
               else if ty = ''ENDTRNS'' then
                 (let st1 = pushErrorIf (\<not> inTransaction st)
                              (''Line '' @ showNat (i + 1) @ '': ENDTRNS without TRNS'') st;
                      st2 = pushErrorIf
                              (\<bar>currentTrnsAmount st1 + currentSplitsTotal st1\<bar> > 1 / 100)
                              (''Transaction '' @ currentTrnsId st1 @ '': TRNS (''
                                 @ toFixed2 (currentTrnsAmount st1) @ '') + SPL (''
                                 @ toFixed2 (currentSplitsTotal st1) @ '') should equal 0'') st1
                  in st2 \<lparr> inTransaction := False \<rparr>)
               else if ty = ''ACCNT'' then st
               else if ty \<noteq> [] then
                 st \<lparr> stateWarnings := stateWarnings st
                        @ [''Line '' @ showNat (i + 1) @ '': Unknown row type '' @ [CHR 0x22] @ ty
                           @ [CHR 0x22]] \<rparr>
               else st))"

fun validateLines :: "nat \<Rightarrow> string list \<Rightarrow> IIFState \<Rightarrow> IIFState" where
  "validateLines i [] st = st"
| "validateLines i (line # rest) st = validateLines (i + 1) rest (validateLine i line st)"

definition validateIIF :: "string \<Rightarrow> IIFValidationResult" where
  "validateIIF content =
     (let lines = splitLines content;
          hasHeader = list_ex (\<lambda>l. startsWith l ''!TRNS'') lines;
          st0 = \<lparr> inTransaction = False, currentTrnsAmount = 0, currentSplitsTotal = 0,
                  currentTrnsId = [],
                  stateErrors = (if hasHeader then [] else [''Missing !TRNS header'']),
                  stateWarnings = [],
                  stateStats = \<lparr> transactionCount = 0, splitCount = 0, totalDebit = 0,
                                 totalCredit = 0 \<rparr> \<rparr>;
          st1 = validateLines 0 lines st0;
          st2 = pushErrorIf (inTransaction st1)
                  ''File ends without ENDTRNS for last transaction'' st1;
          warns = stateWarnings st2
                    @ (if transactionCount (stateStats st2) = 0
                       then [''No transactions found in IIF file''] else [])
      in \<lparr> valid = (length (stateErrors st2) = 0),
           errors = stateErrors st2,
           warnings = warns,
           stats = stateStats st2 \<rparr>)"


section \<open>Definitions used to state the properties\<close>

text \<open>
  A malformed action, in the words of the specification: a split action with an empty (or
  absent) allocation list, a categorize action with no category, a rename action with no
  new name.
\<close>

definition malformedAction :: "RuleAction \<Rightarrow> bool" where
  "malformedAction a =
     (case RuleAction.type a of
        Categorize \<Rightarrow> \<not> truthy (RuleAction.category a)
      | Rename \<Rightarrow> \<not> truthy (newName a)
      | Split \<Rightarrow> (case splits a of None \<Rightarrow> True | Some allocs \<Rightarrow> allocs = []))"


subsection \<open>Concrete inputs\<close>

definition exampleTxn :: "rat \<Rightarrow> SplitTransaction" where
  "exampleTxn a =
     \<lparr> Transaction.date = ''2024-01-15'', description = ''COSTCO WHOLESALE'', amount = a,
       Transaction.type = Expense, Transaction.category = ''Uncategorized'',
       Transaction.balance = Num 0, account = ''Checking'',
       isSplit = False, splitParentId = None, splitIndex = None, originalAmount = None,
       splitMemo = None \<rparr>"

definition alloc :: "string \<Rightarrow> rat option \<Rightarrow> rat option \<Rightarrow> SplitAllocation" where
  "alloc c p f =
     \<lparr> SplitAllocation.category = c, percentage = p, fixedAmount = f, memo = None \<rparr>"

definition splitRule :: "SplitAllocation list option \<Rightarrow> CustomRule" where
  "splitRule allocs =
     \<lparr> ruleId = ''rule_1'', name = ''Costco split'', enabled = True, priority = 10,
       conditions = [\<lparr> field = DescriptionField, matchType = Contains, value = ''costco'',
                      minAmount = None, maxAmount = None \<rparr>],
       conditionLogic = AND_logic,
       action = \<lparr> RuleAction.type = Split, RuleAction.category = None, newName = None,
                  splits = allocs \<rparr>,
       createdAt = ''2024-01-01T00:00:00.000Z'', updatedAt = ''2024-01-01T00:00:00.000Z'' \<rparr>"


text \<open>
  A fixed amount, then 100 percent, then the remainder: the rule validator accepts this
  list (no percentage is out of range, the percentages sum to 100, no fixed amount is
  negative, only the last allocation has neither).
\<close>

definition overdrawn :: "SplitAllocation list" where
  "overdrawn = [alloc ''Groceries'' None (Some 10), alloc ''Household'' (Some 100) None,
                alloc ''Other'' None None]"



subsection \<open>The balance check and the required-columns check, in closed form\<close>













text \<open>
  The rule that decides a description, in the words of the specification: the first rule
  of the list one of whose patterns matches.
\<close>

definition matchesAny :: "CategoryRule \<Rightarrow> string \<Rightarrow> bool" where
  "matchesAny rule desc = (\<exists>p \<in> set (patterns rule). test p desc)"

definition plainTxn :: "string \<Rightarrow> TxnType \<Rightarrow> string \<Rightarrow> Transaction" where
  "plainTxn d ty c =
     \<lparr> Transaction.date = ''2024-01-15'', description = d, amount = 10,
       Transaction.type = ty, Transaction.category = c,
       Transaction.balance = Num 0, Transaction.account = ''Checking'' \<rparr>"

section \<open>Properties of the rule engine\<close>













text \<open>
  Claim C2 says that every transaction a pipeline stage produces has \<open>amount \<ge> 0\<close>. The
  split action breaks it: with the allocations \<open>overdrawn\<close>, a rule that the rule validator
  accepts, an expense of 100 becomes fragments of 10, 100 and -10. The fixed-amount branch
  bounds its share by the remainder; the percentage branch does not, so the remainder goes
  negative and the last allocation receives it.
\<close>

theorem applyRules_negative_amount:
  "matchesRule (\<lambda>p s. None) (exampleTxn 100) (splitRule (Some overdrawn))
   \<and> map amount (applyRules (\<lambda>p s. None) 0 [splitRule (Some overdrawn)] (exampleTxn 100))
       = [10, 100, - 10]
   \<and> map Transaction.type
        (applyRules (\<lambda>p s. None) 0 [splitRule (Some overdrawn)] (exampleTxn 100))
       = [Expense, Expense, Expense]"
  by code_simp

text \<open>
  Claim C8: applying a rule whose action is malformed returns exactly one fragment, the
  original transaction tagged non-split; the model has no failing branch because the
  source has none.
\<close>

theorem applyRule_malformed:
  "malformedAction (action rule) \<Longrightarrow> applyRule now t rule = [t \<lparr> isSplit := False \<rparr>]"
  by (auto simp add: malformedAction_def applyRule_def
           split: RuleActionType.splits option.splits)

theorem applyRule_malformed_witness:
  "malformedAction (action (splitRule (Some [])))
   \<and> applyRule 0 (exampleTxn 100) (splitRule (Some [])) = [exampleTxn 100]"
  using applyRule_malformed [of "splitRule (Some [])" 0 "exampleTxn 100"]
  by (simp add: malformedAction_def splitRule_def exampleTxn_def)


section \<open>Properties of numeric normalization\<close>






section \<open>Properties of the row validators\<close>

















section \<open>Properties of the markup parser\<close>













section \<open>Properties of the categorizer\<close>

lemma patternLoop_iff: "patternLoop ps d = (\<exists>p \<in> set ps. test p d)"
  by (induction ps) auto

lemma ruleLoop_find:
  "ruleLoop rs d = map_option CategoryRule.category (List.find (\<lambda>r. matchesAny r d) rs)"
  by (induction rs) (simp_all add: patternLoop_iff matchesAny_def)

lemma ruleLoop_Some: "ruleLoop rs d = Some c \<Longrightarrow> \<exists>r \<in> set rs. c = CategoryRule.category r"
  by (induction rs) (auto split: if_splits)

lemma rule_categories:
  "list_all (\<lambda>r. CategoryRule.category r \<noteq> [] \<and> CategoryRule.category r \<noteq> ''Uncategorized'')
     CATEGORY_RULES"
  by code_simp

lemma income_rules:
  "map CategoryRule.category (take 5 CATEGORY_RULES)
     = [''Salary'', ''Bonus'', ''Interest'', ''Dividends'', ''Refunds'']"
  by code_simp

text \<open>What the categorizer returns is a category that is set.\<close>

lemma categorizeTransaction_set:
  "categorizeTransaction t \<noteq> [] \<and> categorizeTransaction t \<noteq> ''Uncategorized''"
proof (cases "Transaction.category t \<noteq> [] \<and> Transaction.category t \<noteq> ''Uncategorized''")
  case True
  then show ?thesis by (simp add: categorizeTransaction_def)
next
  case False
  have rc: "c \<noteq> [] \<and> c \<noteq> ''Uncategorized''"
    if "ruleLoop rs d = Some c" and "set rs \<subseteq> set CATEGORY_RULES" for rs d c
  proof -
    from ruleLoop_Some [OF that(1)] obtain r
      where "r \<in> set rs" and c: "c = CategoryRule.category r"
      by blast
    with that(2) have "r \<in> set CATEGORY_RULES" by blast
    with rule_categories c show ?thesis by (simp add: list_all_iff)
  qed
  let ?d = "toLowerCase (Transaction.description t)"
  show ?thesis
  proof (cases "Transaction.type t = Income")
    case True
    show ?thesis
    proof (cases "ruleLoop (take 5 CATEGORY_RULES) ?d")
      case None
      with False True show ?thesis by (simp add: categorizeTransaction_def)
    next
      case (Some c)
      from rc [OF Some] have "c \<noteq> [] \<and> c \<noteq> ''Uncategorized''"
        by (simp add: set_take_subset)
      with False True Some show ?thesis by (simp add: categorizeTransaction_def)
    qed
  next
    case notIncome: False
    show ?thesis
    proof (cases "ruleLoop CATEGORY_RULES ?d")
      case None
      with False notIncome show ?thesis by (simp add: categorizeTransaction_def)
    next
      case (Some c)
      from rc [OF Some] have "c \<noteq> [] \<and> c \<noteq> ''Uncategorized''" by simp
      with False notIncome Some show ?thesis by (simp add: categorizeTransaction_def)
    qed
  qed
qed

text \<open>
  Claim C7: \<open>categorizeTransaction\<close> returns the existing category when it is set and is
  not the sentinel \<open>Uncategorized\<close>. Otherwise, on the lower-cased description, an income
  transaction gets the category of the first of the first five rules (Salary, Bonus,
  Interest, Dividends, Refunds) one of whose patterns matches, and \<open>Other Income\<close> when
  none does; any other transaction gets the category of the first rule of the whole list
  one of whose patterns matches, and \<open>Other\<close> when none does. Hence running it again on
  its own result changes nothing.
\<close>

theorem categorizeTransaction_spec:
  "categorizeTransaction t =
     (if Transaction.category t \<noteq> [] \<and> Transaction.category t \<noteq> ''Uncategorized''
      then Transaction.category t
      else if Transaction.type t = Income then
        (case List.find (\<lambda>r. matchesAny r (toLowerCase (Transaction.description t)))
                (take 5 CATEGORY_RULES) of
           Some r \<Rightarrow> CategoryRule.category r
         | None \<Rightarrow> ''Other Income'')
      else
        (case List.find (\<lambda>r. matchesAny r (toLowerCase (Transaction.description t)))
                CATEGORY_RULES of
           Some r \<Rightarrow> CategoryRule.category r
         | None \<Rightarrow> ''Other''))
   \<and> categorizeTransaction (t \<lparr> Transaction.category := categorizeTransaction t \<rparr>)
       = categorizeTransaction t
   \<and> map CategoryRule.category (take 5 CATEGORY_RULES)
       = [''Salary'', ''Bonus'', ''Interest'', ''Dividends'', ''Refunds'']"
proof -
  have a: "categorizeTransaction (t \<lparr> Transaction.category := categorizeTransaction t \<rparr>)
             = categorizeTransaction t"
    using categorizeTransaction_set [of t]
    by (simp add: categorizeTransaction_def
          [of "t \<lparr> Transaction.category := categorizeTransaction t \<rparr>"])
  have b: "categorizeTransaction t =
     (if Transaction.category t \<noteq> [] \<and> Transaction.category t \<noteq> ''Uncategorized''
      then Transaction.category t
      else if Transaction.type t = Income then
        (case List.find (\<lambda>r. matchesAny r (toLowerCase (Transaction.description t)))
                (take 5 CATEGORY_RULES) of
           Some r \<Rightarrow> CategoryRule.category r
         | None \<Rightarrow> ''Other Income'')
      else
        (case List.find (\<lambda>r. matchesAny r (toLowerCase (Transaction.description t)))
                CATEGORY_RULES of
           Some r \<Rightarrow> CategoryRule.category r
         | None \<Rightarrow> ''Other''))"
    by (simp add: categorizeTransaction_def ruleLoop_find Let_def split: option.splits)
  from a b income_rules show ?thesis by blast
qed

lemma categorize_examples:
  "categorizeTransaction (plainTxn ''STARBUCKS STORE #123'' Expense ''Uncategorized'')
     = ''Restaurants & Dining''"
  "categorizeTransaction (plainTxn ''NETFLIX.COM'' Expense ''Uncategorized'') = ''Subscriptions''"
  "categorizeTransaction (plainTxn [] Expense []) = ''Other''"
  "categorizeTransaction (plainTxn ''ALDI'' Expense []) = ''Groceries''"
  "categorizeTransaction (plainTxn ''ALDI'' Income []) = ''Other Income''"
  "categorizeTransaction (plainTxn ''IRS TAX REFUND'' Income []) = ''Refunds''"
  by code_simp+

text \<open>
  The descriptions of the specification's tests, an income that only an expense rule
  matches, and the categorizer run again on a result.
\<close>

theorem categorizeTransaction_spec_witness:
  "categorizeTransaction (plainTxn ''STARBUCKS STORE #123'' Expense ''Uncategorized'')
     = ''Restaurants & Dining''
   \<and> categorizeTransaction (plainTxn ''STARBUCKS STORE #123'' Expense ''Restaurants & Dining'')
     = ''Restaurants & Dining''
   \<and> categorizeTransaction (plainTxn ''NETFLIX.COM'' Expense ''Uncategorized'') = ''Subscriptions''
   \<and> categorizeTransaction (plainTxn [] Expense []) = ''Other''
   \<and> categorizeTransaction (plainTxn ''ALDI'' Expense []) = ''Groceries''
   \<and> categorizeTransaction (plainTxn ''ALDI'' Income []) = ''Other Income''
   \<and> categorizeTransaction (plainTxn ''IRS TAX REFUND'' Income []) = ''Refunds''"
proof -
  have u: "(plainTxn d ty c) \<lparr> Transaction.category := c' \<rparr> = plainTxn d ty c'" for d ty c c'
    by (simp add: plainTxn_def)
  note idem = categorizeTransaction_spec
         [of "plainTxn ''STARBUCKS STORE #123'' Expense ''Uncategorized''",
          THEN conjunct2, THEN conjunct1]
  have "categorizeTransaction (plainTxn ''STARBUCKS STORE #123'' Expense ''Restaurants & Dining'')
          = ''Restaurants & Dining''"
    using idem unfolding categorize_examples(1) u .
  with categorize_examples show ?thesis by simp
qed

end
